theory Spec2Isabelle
  imports Main
begin

section \<open>The host editor, as far as font\_resizer.py uses it\<close>

text \<open>
  Setting values are the JSON values the plugin handles: a number (the spec's
  FontSizeValue is an integer) or null, Python's \<^verbatim>\<open>None\<close>, which is what
  \<^verbatim>\<open>settings.get(name)\<close> answers for a missing name.
\<close>

datatype pyval = VNone | VInt int

datatype error = TypeError | AttributeError

type_synonym settings = "string \<Rightarrow> pyval option"

text \<open>
  The project data of a window: the \<^verbatim>\<open>settings\<close> sub-dictionary, when the key is
  there, and the other keys, which the plugin never reads.
\<close>

record project =
  pd_settings :: "settings option"
  pd_other :: "string \<Rightarrow> pyval option"

text \<open>Every call into the host that changes something or prints is logged, in order.\<close>

datatype event =
    Settings_set string string pyval
  | Settings_erase string string
  | Save_settings string
  | Set_project_data
  | View_settings_set string pyval
  | View_settings_erase string
  | Print string

text \<open>
  The state the plugin runs against: the settings objects of the host by file name
  (\<^verbatim>\<open>sublime.load_settings\<close>), the project data of the current window
  (\<^verbatim>\<open>None\<close> for a window that has none), the settings of the current view, the
  base name of the syntax of the current view (\<^verbatim>\<open>view.syntax()\<close> is
  \<^verbatim>\<open>None\<close> for a view without one) and the log of host calls.
\<close>

record world =
  files :: "string \<Rightarrow> settings"
  project_data :: "project option"
  view_settings :: settings
  view_syntax :: "string option"
  trace :: "event list"

subsection \<open>The Settings Accessor\<close>

text \<open>
  Modelled from the spec: the host's settings object (\<^verbatim>\<open>sublime.Settings\<close>) is
  not part of the repository; the spec describes it as a key-value store keyed by
  string name with get-with-fallback, set, erase and an explicit persist-to-disk
  operation. Each store is read on its own: no lookup through other domains.
\<close>

definition preferences :: string where
  "preferences = ''Preferences.sublime-settings''"

definition load_settings :: "world \<Rightarrow> string \<Rightarrow> settings" where
  "load_settings w file = files w file"

definition settings_get :: "settings \<Rightarrow> string \<Rightarrow> pyval \<Rightarrow> pyval" where
  "settings_get s name dflt = (case s name of None \<Rightarrow> dflt | Some v \<Rightarrow> v)"

definition settings_has :: "settings \<Rightarrow> string \<Rightarrow> bool" where
  "settings_has s name = (s name \<noteq> None)"

definition settings_set :: "string \<Rightarrow> string \<Rightarrow> pyval \<Rightarrow> world \<Rightarrow> world" where
  "settings_set file name v w =
     w\<lparr>files := (files w)(file := (files w file)(name \<mapsto> v)),
       trace := trace w @ [Settings_set file name v]\<rparr>"

definition settings_erase :: "string \<Rightarrow> string \<Rightarrow> world \<Rightarrow> world" where
  "settings_erase file name w =
     w\<lparr>files := (files w)(file := (files w file)(name := None)),
       trace := trace w @ [Settings_erase file name]\<rparr>"

definition save_settings :: "string \<Rightarrow> world \<Rightarrow> world" where
  "save_settings file w = w\<lparr>trace := trace w @ [Save_settings file]\<rparr>"

definition view_set :: "string \<Rightarrow> pyval \<Rightarrow> world \<Rightarrow> world" where
  "view_set name v w =
     w\<lparr>view_settings := (view_settings w)(name \<mapsto> v),
       trace := trace w @ [View_settings_set name v]\<rparr>"

definition view_erase :: "string \<Rightarrow> world \<Rightarrow> world" where
  "view_erase name w =
     w\<lparr>view_settings := (view_settings w)(name := None),
       trace := trace w @ [View_settings_erase name]\<rparr>"

definition set_project_data :: "project \<Rightarrow> world \<Rightarrow> world" where
  "set_project_data pd w =
     w\<lparr>project_data := Some pd, trace := trace w @ [Set_project_data]\<rparr>"

definition print :: "string \<Rightarrow> world \<Rightarrow> world" where
  "print msg w = w\<lparr>trace := trace w @ [Print msg]\<rparr>"

subsection \<open>Python's operators on setting values\<close>

fun py_ge :: "pyval \<Rightarrow> pyval \<Rightarrow> error + bool" where
  "py_ge (VInt a) (VInt b) = Inr (a \<ge> b)"
| "py_ge _ _ = Inl TypeError"

fun py_gt :: "pyval \<Rightarrow> pyval \<Rightarrow> error + bool" where
  "py_gt (VInt a) (VInt b) = Inr (a > b)"
| "py_gt _ _ = Inl TypeError"

fun py_lt :: "pyval \<Rightarrow> pyval \<Rightarrow> error + bool" where
  "py_lt (VInt a) (VInt b) = Inr (a < b)"
| "py_lt _ _ = Inl TypeError"

fun py_add :: "pyval \<Rightarrow> pyval \<Rightarrow> error + pyval" where
  "py_add (VInt a) (VInt b) = Inr (VInt (a + b))"
| "py_add _ _ = Inl TypeError"

fun py_sub :: "pyval \<Rightarrow> pyval \<Rightarrow> error + pyval" where
  "py_sub (VInt a) (VInt b) = Inr (VInt (a - b))"
| "py_sub _ _ = Inl TypeError"

text \<open>A raised exception ends the method: the rest is skipped.\<close>

definition bind_err :: "error + 'a \<Rightarrow> ('a \<Rightarrow> error + 'b) \<Rightarrow> error + 'b" where
  "bind_err r f = (case r of Inl e \<Rightarrow> Inl e | Inr x \<Rightarrow> f x)"

section \<open>plugin\_loaded\<close>

text \<open>
  The loop over \<^verbatim>\<open>defaults.items()\<close>, in the order the dictionary was written;
  the state is the world and the flag \<^verbatim>\<open>updated\<close>.
\<close>

fun seed_defaults :: "(string \<times> pyval) list \<Rightarrow> world \<times> bool \<Rightarrow> world \<times> bool" where
  "seed_defaults [] (w, updated) = (w, updated)"
| "seed_defaults ((name, dflt) # rest) (w, updated) =
     (if \<not> settings_has (load_settings w preferences) name
      then seed_defaults rest (settings_set preferences name dflt w, True)
      else seed_defaults rest (w, updated))"

definition defaults :: "world \<Rightarrow> (string \<times> pyval) list" where
  "defaults w =
     [(''default_font_size'', settings_get (load_settings w preferences) ''font_size'' VNone),
      (''min_font_size'', VInt 8),
      (''max_font_size'', VInt 128)]"

definition plugin_loaded :: "world \<Rightarrow> world" where
  "plugin_loaded w =
     (case seed_defaults (defaults w) (w, False) of
        (w', updated) \<Rightarrow> if updated then save_settings preferences w' else w')"

section \<open>FontResizeCommandRewriter\<close>

text \<open>
  \<^verbatim>\<open>on_window_command\<close> reads its \<^verbatim>\<open>command\<close> argument only. The answer is the
  substitute command with its arguments, or \<^verbatim>\<open>None\<close> when the method falls off
  its end.
\<close>

definition on_window_command :: "string \<Rightarrow> (string \<times> (string \<times> string) list) option" where
  "on_window_command command =
     (if command = ''increase_font_size''
      then Some (''global_font_size'', [(''action'', ''increase'')])
      else if command = ''decrease_font_size''
      then Some (''global_font_size'', [(''action'', ''decrease'')])
      else if command = ''reset_font_size''
      then Some (''global_font_size'', [(''action'', ''reset'')])
      else None)"

section \<open>The four commands\<close>

datatype domain = Global | Window | Syntax | View

definition global_font_constraints :: "world \<Rightarrow> pyval \<times> pyval \<times> pyval" where
  "global_font_constraints w =
     (let settings = load_settings w preferences in
      (settings_get settings ''default_font_size'' (VInt 10),
       settings_get settings ''min_font_size'' (VInt 8),
       settings_get settings ''max_font_size'' (VInt 128)))"

subsection \<open>GlobalFontSizeCommand\<close>

definition global_get_font_size :: "world \<Rightarrow> error + pyval" where
  "global_get_font_size w =
     (let settings = load_settings w preferences in
      case global_font_constraints w of
        (default_size, _, _) \<Rightarrow> Inr (settings_get settings ''font_size'' default_size))"

definition global_set_font_size :: "pyval \<Rightarrow> world \<Rightarrow> error + world" where
  "global_set_font_size new_font_size w =
     Inr (save_settings preferences (settings_set preferences ''font_size'' new_font_size w))"

definition global_erase_font_size :: "world \<Rightarrow> error + world" where
  "global_erase_font_size w =
     (case global_font_constraints w of
        (default_size, _, _) \<Rightarrow> global_set_font_size default_size w)"

subsection \<open>WindowFontSizeCommand\<close>

text \<open>\<^verbatim>\<open>self.window.project_data() or {}\<close>: no project data is the empty dictionary.\<close>

definition project_data_or_empty :: "world \<Rightarrow> project" where
  "project_data_or_empty w =
     (case project_data w of
        None \<Rightarrow> \<lparr>pd_settings = None, pd_other = Map.empty\<rparr>
      | Some pd \<Rightarrow> pd)"

definition get_window_settings :: "world \<Rightarrow> settings" where
  "get_window_settings w =
     (case pd_settings (project_data_or_empty w) of None \<Rightarrow> Map.empty | Some s \<Rightarrow> s)"

definition set_window_settings :: "settings \<Rightarrow> world \<Rightarrow> world" where
  "set_window_settings s w =
     set_project_data ((project_data_or_empty w)\<lparr>pd_settings := Some s\<rparr>) w"

definition window_get_font_size :: "world \<Rightarrow> error + pyval" where
  "window_get_font_size w =
     (let settings = get_window_settings w in
      case global_font_constraints w of
        (default_size, _, _) \<Rightarrow> Inr (settings_get settings ''font_size'' default_size))"

definition window_set_font_size :: "pyval \<Rightarrow> world \<Rightarrow> error + world" where
  "window_set_font_size new_font_size w =
     (let settings = get_window_settings w in
      Inr (set_window_settings (settings(''font_size'' \<mapsto> new_font_size)) w))"

definition window_erase_font_size :: "world \<Rightarrow> error + world" where
  "window_erase_font_size w =
     (let settings = get_window_settings w in
      if settings ''font_size'' \<noteq> None
      then Inr (set_window_settings (settings(''font_size'' := None)) w)
      else Inr w)"

subsection \<open>SyntaxFontSizeCommand\<close>

text \<open>
  \<^verbatim>\<open>settings_file\<close>: the name of the syntax of the view, which is
  \<^verbatim>\<open>splitext(basename(self.view.syntax().path))[0]\<close> and a field of the world
  here, with the extension of settings files. A view without a syntax has no
  \<^verbatim>\<open>path\<close>: AttributeError.
\<close>

definition settings_file :: "world \<Rightarrow> error + string" where
  "settings_file w =
     (case view_syntax w of
        None \<Rightarrow> Inl AttributeError
      | Some name \<Rightarrow> Inr (name @ ''.sublime-settings''))"

definition syntax_get_font_size :: "world \<Rightarrow> error + pyval" where
  "syntax_get_font_size w =
     bind_err (settings_file w) (\<lambda>file.
       let settings = load_settings w file in
       case global_font_constraints w of
         (default_size, _, _) \<Rightarrow> Inr (settings_get settings ''font_size'' default_size))"

definition syntax_set_font_size :: "pyval \<Rightarrow> world \<Rightarrow> error + world" where
  "syntax_set_font_size new_font_size w =
     bind_err (settings_file w) (\<lambda>file.
       let w1 = settings_set file ''font_size'' new_font_size w in
       bind_err (settings_file w1) (\<lambda>file2. Inr (save_settings file2 w1)))"

definition syntax_erase_font_size :: "world \<Rightarrow> error + world" where
  "syntax_erase_font_size w =
     bind_err (settings_file w) (\<lambda>file.
       let w1 = settings_erase file ''font_size'' w in
       bind_err (settings_file w1) (\<lambda>file2. Inr (save_settings file2 w1)))"

subsection \<open>ViewFontSizeCommand\<close>

text \<open>
  \<^verbatim>\<open>self.view.settings()\<close> is the store \<open>view_settings\<close>, read on its own like
  the other stores: what the host would inherit from the syntax, the project or the
  global preferences for a key the view lacks is not in the source and not modelled.
\<close>

definition view_get_font_size :: "world \<Rightarrow> error + pyval" where
  "view_get_font_size w =
     (case global_font_constraints w of
        (default_size, _, _) \<Rightarrow> Inr (settings_get (view_settings w) ''font_size'' default_size))"

definition view_set_font_size :: "pyval \<Rightarrow> world \<Rightarrow> error + world" where
  "view_set_font_size new_font_size w = Inr (view_set ''font_size'' new_font_size w)"

definition view_erase_font_size :: "world \<Rightarrow> error + world" where
  "view_erase_font_size w = Inr (view_erase ''font_size'' w)"

subsection \<open>BaseFontSize\<close>

text \<open>
  The methods of the base class call \<^verbatim>\<open>self.get_font_size()\<close>,
  \<^verbatim>\<open>self.set_font_size(v)\<close> and \<^verbatim>\<open>self.erase_font_size()\<close>; which class
  \<^verbatim>\<open>self\<close> belongs to is the domain.
\<close>

fun get_font_size :: "domain \<Rightarrow> world \<Rightarrow> error + pyval" where
  "get_font_size Global w = global_get_font_size w"
| "get_font_size Window w = window_get_font_size w"
| "get_font_size Syntax w = syntax_get_font_size w"
| "get_font_size View w = view_get_font_size w"

fun set_font_size :: "domain \<Rightarrow> pyval \<Rightarrow> world \<Rightarrow> error + world" where
  "set_font_size Global v w = global_set_font_size v w"
| "set_font_size Window v w = window_set_font_size v w"
| "set_font_size Syntax v w = syntax_set_font_size v w"
| "set_font_size View v w = view_set_font_size v w"

fun erase_font_size :: "domain \<Rightarrow> world \<Rightarrow> error + world" where
  "erase_font_size Global w = global_erase_font_size w"
| "erase_font_size Window w = window_erase_font_size w"
| "erase_font_size Syntax w = syntax_erase_font_size w"
| "erase_font_size View w = view_erase_font_size w"

definition increase_font :: "domain \<Rightarrow> world \<Rightarrow> error + world" where
  "increase_font d w =
     bind_err (get_font_size d w) (\<lambda>current.
     case global_font_constraints w of (_, _, max_font) \<Rightarrow>
     bind_err (py_ge current (VInt 36)) (\<lambda>ge36.
     bind_err (if ge36 then py_add current (VInt 4)
               else bind_err (py_ge current (VInt 24)) (\<lambda>ge24.
                      if ge24 then py_add current (VInt 2)
                      else py_add current (VInt 1))) (\<lambda>current.
     bind_err (py_gt current max_font) (\<lambda>over.
     set_font_size d (if over then max_font else current) w))))"

definition decrease_font :: "domain \<Rightarrow> world \<Rightarrow> error + world" where
  "decrease_font d w =
     bind_err (get_font_size d w) (\<lambda>current.
     case global_font_constraints w of (_, min_font, _) \<Rightarrow>
     bind_err (py_ge current (VInt 40)) (\<lambda>ge40.
     bind_err (if ge40 then py_sub current (VInt 4)
               else bind_err (py_ge current (VInt 26)) (\<lambda>ge26.
                      if ge26 then py_sub current (VInt 2)
                      else py_sub current (VInt 1))) (\<lambda>current.
     bind_err (py_lt current min_font) (\<lambda>under.
     set_font_size d (if under then min_font else current) w))))"

definition reset_font :: "domain \<Rightarrow> world \<Rightarrow> error + world" where
  "reset_font d w = erase_font_size d w"

definition unknown_action_message :: "string \<Rightarrow> string" where
  "unknown_action_message action =
     ''plugin_name: unknown font action '' @ [CHR 0x27] @ action @ [CHR 0x27] @ '' provided''"

definition zoom_font :: "domain \<Rightarrow> string \<Rightarrow> world \<Rightarrow> error + world" where
  "zoom_font d action w =
     (if action = ''increase'' then increase_font d w
      else if action = ''decrease'' then decrease_font d w
      else if action = ''reset'' then reset_font d w
      else Inr (print (unknown_action_message action) w))"

text \<open>\<^verbatim>\<open>run\<close> of each command is one call of \<^verbatim>\<open>zoom_font\<close>.\<close>

definition run :: "domain \<Rightarrow> string \<Rightarrow> world \<Rightarrow> error + world" where
  "run d action w = zoom_font d action w"

section \<open>Sample states\<close>

text \<open>
  A state with the global font size, the view's font size and the default limits 8 and
  128 written out, in a view whose syntax is Python.
\<close>

definition sample_world :: "int \<Rightarrow> world" where
  "sample_world n =
     \<lparr>files = (\<lambda>_. Map.empty)(preferences :=
        [''font_size'' \<mapsto> VInt n, ''min_font_size'' \<mapsto> VInt 8, ''max_font_size'' \<mapsto> VInt 128]),
      project_data = None,
      view_settings = [''font_size'' \<mapsto> VInt n],
      view_syntax = Some ''Python'',
      trace = []\<rparr>"

text \<open>
  The preferences of a first run: a font size, and none of the three constraint keys.
\<close>

definition first_run_world :: world where
  "first_run_world =
     \<lparr>files = (\<lambda>_. Map.empty)(preferences := [''font_size'' \<mapsto> VInt 11]),
      project_data = None,
      view_settings = Map.empty,
      view_syntax = None,
      trace = []\<rparr>"

text \<open>
  A state with a different size stored in each domain (14 global, 16 window, 18 for the
  Python syntax, 20 in the view) and a configured default of 12.
\<close>

definition stored_world :: world where
  "stored_world =
     \<lparr>files = (\<lambda>_. Map.empty)
        (preferences := [''font_size'' \<mapsto> VInt 14, ''default_font_size'' \<mapsto> VInt 12],
         ''Python.sublime-settings'' := [''font_size'' \<mapsto> VInt 18]),
      project_data = Some \<lparr>pd_settings = Some [''font_size'' \<mapsto> VInt 16], pd_other = Map.empty\<rparr>,
      view_settings = [''font_size'' \<mapsto> VInt 20],
      view_syntax = Some ''Python'',
      trace = []\<rparr>"

section \<open>Facts shared by the proofs\<close>

lemma set_then_get:
  assumes "get_font_size d w = Inr x"
  shows "\<exists>w'. set_font_size d v w = Inr w' \<and> get_font_size d w' = Inr v"
proof (cases d)
  case Global
  then show ?thesis
    by (simp add: global_set_font_size_def global_get_font_size_def save_settings_def
        settings_set_def load_settings_def settings_get_def global_font_constraints_def Let_def)
next
  case Window
  then show ?thesis
    by (simp add: window_set_font_size_def window_get_font_size_def set_window_settings_def
        set_project_data_def get_window_settings_def project_data_or_empty_def
        settings_get_def global_font_constraints_def Let_def load_settings_def)
next
  case Syntax
  with assms obtain name where "view_syntax w = Some name"
    by (cases "view_syntax w") (simp_all add: syntax_get_font_size_def settings_file_def bind_err_def)
  with Syntax show ?thesis
    by (simp add: syntax_set_font_size_def syntax_get_font_size_def settings_file_def bind_err_def
        save_settings_def settings_set_def load_settings_def settings_get_def
        global_font_constraints_def Let_def)
next
  case View
  then show ?thesis
    by (simp add: view_set_font_size_def view_get_font_size_def view_set_def
        settings_get_def global_font_constraints_def Let_def load_settings_def)
qed

lemma sample_world_global_get:
  "get_font_size Global (sample_world n) = Inr (VInt n)"
  by (simp add: sample_world_def global_get_font_size_def settings_get_def
      global_font_constraints_def Let_def load_settings_def)

lemma sample_world_view_get:
  "get_font_size View (sample_world n) = Inr (VInt n)"
  by (simp add: sample_world_def view_get_font_size_def settings_get_def
      global_font_constraints_def Let_def load_settings_def)

lemma sample_world_constraints:
  "fst (snd (global_font_constraints (sample_world n))) = VInt 8"
  "snd (snd (global_font_constraints (sample_world n))) = VInt 128"
  by (simp_all add: sample_world_def settings_get_def global_font_constraints_def
      Let_def load_settings_def)

lemma stored_world_constraints:
  "global_font_constraints stored_world = (VInt 12, VInt 8, VInt 128)"
  by (simp add: stored_world_def global_font_constraints_def load_settings_def settings_get_def
      Let_def preferences_def)

lemma stored_world_sizes:
  "get_font_size Global stored_world = Inr (VInt 14)"
  "get_font_size Window stored_world = Inr (VInt 16)"
  "get_font_size Syntax stored_world = Inr (VInt 18)"
  "get_font_size View stored_world = Inr (VInt 20)"
  by (simp_all add: stored_world_constraints global_get_font_size_def window_get_font_size_def
      syntax_get_font_size_def view_get_font_size_def)
    (simp_all add: stored_world_def load_settings_def settings_get_def get_window_settings_def
      project_data_or_empty_def settings_file_def bind_err_def preferences_def)

subsection \<open>The seeding loop\<close>

lemma seed_defaults_files:
  "files (fst (seed_defaults ds (w, u))) f name =
     (if f = preferences
      then (case files w preferences name of Some v \<Rightarrow> Some v | None \<Rightarrow> map_of ds name)
      else files w f name)"
proof (induction ds arbitrary: w u f name)
  case Nil
  then show ?case by (simp split: option.split)
next
  case (Cons a ds)
  obtain n v where a: "a = (n, v)" by (cases a)
  show ?case
    by (simp add: a Cons.IH settings_has_def load_settings_def settings_set_def
        split: option.split)
qed

lemma seed_defaults_rest:
  "project_data (fst (seed_defaults ds (w, u))) = project_data w
   \<and> view_settings (fst (seed_defaults ds (w, u))) = view_settings w
   \<and> view_syntax (fst (seed_defaults ds (w, u))) = view_syntax w"
proof (induction ds arbitrary: w u)
  case Nil
  then show ?case by simp
next
  case (Cons a ds)
  obtain n v where a: "a = (n, v)" by (cases a)
  show ?case
    by (simp add: a Cons.IH settings_set_def)
qed

lemma seed_defaults_flag:
  "snd (seed_defaults ds (w, u)) = (u \<or> (\<exists>n \<in> fst ` set ds. files w preferences n = None))"
proof (induction ds arbitrary: w u)
  case Nil
  then show ?case by simp
next
  case (Cons a ds)
  obtain n v where a: "a = (n, v)" by (cases a)
  show ?case
    by (auto simp add: a Cons.IH settings_has_def load_settings_def settings_set_def)
qed

lemma seed_defaults_trace:
  "distinct (map fst ds) \<Longrightarrow>
   trace (fst (seed_defaults ds (w, u))) =
     trace w @ map (\<lambda>(name, dflt). Settings_set preferences name dflt)
       (filter (\<lambda>(name, dflt). \<not> settings_has (load_settings w preferences) name) ds)"
proof (induction ds arbitrary: w u)
  case Nil
  then show ?case by simp
next
  case (Cons a ds)
  obtain n v where a: "a = (n, v)" by (cases a)
  from Cons.prems a have fresh: "n \<notin> fst ` set ds" and dist: "distinct (map fst ds)"
    by simp_all
  have same: "filter (\<lambda>(name, dflt).
        \<not> settings_has (load_settings (settings_set preferences n v w) preferences) name) ds
      = filter (\<lambda>(name, dflt). \<not> settings_has (load_settings w preferences) name) ds"
  proof (rule filter_cong [OF refl])
    fix x assume "x \<in> set ds"
    with fresh have "fst x \<noteq> n" by force
    then show "(case x of (name, dflt) \<Rightarrow>
          \<not> settings_has (load_settings (settings_set preferences n v w) preferences) name)
        = (case x of (name, dflt) \<Rightarrow> \<not> settings_has (load_settings w preferences) name)"
      by (cases x) (simp add: settings_has_def load_settings_def settings_set_def)
  qed
  show ?case
  proof (cases "settings_has (load_settings w preferences) n")
    case True
    then show ?thesis
      by (simp add: a Cons.IH [OF dist])
  next
    case False
    then show ?thesis
      by (simp add: a Cons.IH [OF dist] same) (simp add: settings_set_def)
  qed
qed

lemma seed_defaults_nothing_absent:
  "\<forall>n \<in> fst ` set ds. settings_has (load_settings w preferences) n \<Longrightarrow>
   seed_defaults ds (w, u) = (w, u)"
proof (induction ds arbitrary: w u)
  case Nil
  then show ?case by simp
next
  case (Cons a ds)
  obtain n v where a: "a = (n, v)" by (cases a)
  from Cons.prems show ?case
    by (simp add: a Cons.IH)
qed

lemma defaults_names:
  "map fst (defaults w) = [''default_font_size'', ''min_font_size'', ''max_font_size'']"
  by (simp add: defaults_def)

lemma defaults_distinct: "distinct (map fst (defaults w))"
  by (simp add: defaults_names)

lemma plugin_loaded_files:
  "files (plugin_loaded w) f name =
     (if f = preferences
      then (case files w preferences name of
              Some v \<Rightarrow> Some v
            | None \<Rightarrow> map_of (defaults w) name)
      else files w f name)"
proof -
  obtain w' updated where s: "seed_defaults (defaults w) (w, False) = (w', updated)"
    by (cases "seed_defaults (defaults w) (w, False)")
  then have "w' = fst (seed_defaults (defaults w) (w, False))"
    by simp
  then have "files w' f name =
     (if f = preferences
      then (case files w preferences name of
              Some v \<Rightarrow> Some v
            | None \<Rightarrow> map_of (defaults w) name)
      else files w f name)"
    by (simp only: seed_defaults_files)
  with s show ?thesis
    by (cases "f = preferences") (simp_all add: plugin_loaded_def save_settings_def)
qed

lemma plugin_loaded_trace:
  "trace (plugin_loaded w) =
     (let writes = map (\<lambda>(name, dflt). Settings_set preferences name dflt)
            (filter (\<lambda>(name, dflt). \<not> settings_has (load_settings w preferences) name)
               (defaults w))
      in trace w @ writes @ (if writes = [] then [] else [Save_settings preferences]))"
proof -
  let ?absent = "filter (\<lambda>(name, dflt). \<not> settings_has (load_settings w preferences) name)
               (defaults w)"
  obtain w' updated where s: "seed_defaults (defaults w) (w, False) = (w', updated)"
    by (cases "seed_defaults (defaults w) (w, False)")
  then have w': "w' = fst (seed_defaults (defaults w) (w, False))"
    and u: "updated = snd (seed_defaults (defaults w) (w, False))"
    by simp_all
  have t: "trace w' = trace w @ map (\<lambda>(name, dflt). Settings_set preferences name dflt) ?absent"
    unfolding w' by (rule seed_defaults_trace [OF defaults_distinct])
  have "updated = (\<exists>n \<in> fst ` set (defaults w). files w preferences n = None)"
    unfolding u by (simp add: seed_defaults_flag)
  also have "\<dots> = (?absent \<noteq> [])"
    by (simp add: filter_empty_conv settings_has_def load_settings_def case_prod_beta)
  finally have f: "updated = (?absent \<noteq> [])" .
  from s t f show ?thesis
    by (simp add: plugin_loaded_def save_settings_def Let_def)
qed

lemma plugin_loaded_twice:
  "plugin_loaded (plugin_loaded w) = plugin_loaded w"
proof -
  let ?w1 = "plugin_loaded w"
  have "\<forall>n \<in> fst ` set (defaults ?w1). settings_has (load_settings ?w1 preferences) n"
  proof
    fix n assume "n \<in> fst ` set (defaults ?w1)"
    then have "n \<in> set (map fst (defaults ?w1))"
      by simp
    then have n: "n \<in> {''default_font_size'', ''min_font_size'', ''max_font_size''}"
      by (simp only: defaults_names) simp
    then have "map_of (defaults w) n \<noteq> None"
      by (auto simp add: defaults_def)
    then show "settings_has (load_settings ?w1 preferences) n"
      by (simp add: settings_has_def load_settings_def plugin_loaded_files split: option.split)
  qed
  then have "seed_defaults (defaults ?w1) (?w1, False) = (?w1, False)"
    by (rule seed_defaults_nothing_absent)
  then show ?thesis
    by (simp add: plugin_loaded_def [of ?w1])
qed

lemma sample_world_prefs:
  "load_settings (sample_world n) preferences =
     [''font_size'' \<mapsto> VInt n, ''min_font_size'' \<mapsto> VInt 8, ''max_font_size'' \<mapsto> VInt 128]"
  by (simp add: sample_world_def load_settings_def)

section \<open>The Zoom Engine\<close>

text \<open>
  C1. In every domain, when the current size is the integer \<open>current\<close> and the
  configured maximum is the integer \<open>max_font\<close>, \<open>increase_font\<close> is the call of
  \<open>set_font_size\<close> with \<open>min (current + step) max_font\<close>, where the step is 4
  from 36 on, 2 from 24 on and 1 below.
\<close>

theorem increase_font_steps_and_clamps:
  assumes "get_font_size d w = Inr (VInt current)"
    and "snd (snd (global_font_constraints w)) = VInt max_font"
  shows "increase_font d w =
           set_font_size d
             (VInt (min (current + (if current \<ge> 36 then 4 else if current \<ge> 24 then 2 else 1))
                        max_font)) w"
  using assms
  by (cases "global_font_constraints w") (simp add: increase_font_def bind_err_def min_def)

theorem increase_font_steps_and_clamps_witness:
  "get_font_size Global (sample_world 20) = Inr (VInt 20)
   \<and> snd (snd (global_font_constraints (sample_world 20))) = VInt 128
   \<and> increase_font Global (sample_world 20) = set_font_size Global (VInt 21) (sample_world 20)"
  using increase_font_steps_and_clamps
      [OF sample_world_global_get sample_world_constraints(2), of 20]
    sample_world_global_get [of 20] sample_world_constraints(2) [of 20]
  by simp

text \<open>
  C2. In every domain, when the current size is the integer \<open>current\<close> and the
  configured minimum is the integer \<open>min_font\<close>, \<open>decrease_font\<close> is the call of
  \<open>set_font_size\<close> with \<open>max (current - step) min_font\<close>, where the step is 4
  from 40 on, 2 from 26 on and 1 below. With a minimum that does not interfere, 40
  goes to 36, 26 to 24 and 25 to 24.
\<close>

theorem decrease_font_steps_and_clamps:
  assumes "get_font_size d w = Inr (VInt current)"
    and "fst (snd (global_font_constraints w)) = VInt min_font"
  shows "decrease_font d w =
           set_font_size d
             (VInt (max (current - (if current \<ge> 40 then 4 else if current \<ge> 26 then 2 else 1))
                        min_font)) w
         \<and> (current = 40 \<and> min_font \<le> 36 \<longrightarrow> decrease_font d w = set_font_size d (VInt 36) w)
         \<and> (current = 26 \<and> min_font \<le> 24 \<longrightarrow> decrease_font d w = set_font_size d (VInt 24) w)
         \<and> (current = 25 \<and> min_font \<le> 24 \<longrightarrow> decrease_font d w = set_font_size d (VInt 24) w)"
proof -
  let ?stepped = "current - (if current \<ge> 40 then 4 else if current \<ge> 26 then 2 else 1)"
  have raw: "decrease_font d w =
      set_font_size d (if ?stepped < min_font then VInt min_font else VInt ?stepped) w"
    using assms
    by (cases "global_font_constraints w") (simp add: decrease_font_def bind_err_def)
  have val: "(if ?stepped < min_font then VInt min_font else VInt ?stepped)
      = VInt (max ?stepped min_font)"
    by (simp add: max_def)
  have general: "decrease_font d w = set_font_size d (VInt (max ?stepped min_font)) w"
    using raw val by simp
  show ?thesis
  proof (intro conjI impI)
    show "decrease_font d w = set_font_size d (VInt (max ?stepped min_font)) w"
      by (rule general)
  next
    assume "current = 40 \<and> min_font \<le> 36"
    then have "max ?stepped min_font = 36"
      by auto
    with general show "decrease_font d w = set_font_size d (VInt 36) w"
      by simp
  next
    assume "current = 26 \<and> min_font \<le> 24"
    then have "max ?stepped min_font = 24"
      by auto
    with general show "decrease_font d w = set_font_size d (VInt 24) w"
      by simp
  next
    assume "current = 25 \<and> min_font \<le> 24"
    then have "max ?stepped min_font = 24"
      by auto
    with general show "decrease_font d w = set_font_size d (VInt 24) w"
      by simp
  qed
qed

theorem decrease_font_steps_and_clamps_witness:
  "get_font_size View (sample_world 40) = Inr (VInt 40)
   \<and> fst (snd (global_font_constraints (sample_world 40))) = VInt 8
   \<and> decrease_font View (sample_world 40) = set_font_size View (VInt 36) (sample_world 40)
   \<and> get_font_size View (sample_world 26) = Inr (VInt 26)
   \<and> decrease_font View (sample_world 26) = set_font_size View (VInt 24) (sample_world 26)
   \<and> get_font_size View (sample_world 25) = Inr (VInt 25)
   \<and> decrease_font View (sample_world 25) = set_font_size View (VInt 24) (sample_world 25)"
  using decrease_font_steps_and_clamps [OF sample_world_view_get sample_world_constraints(1), of 40]
    decrease_font_steps_and_clamps [OF sample_world_view_get sample_world_constraints(1), of 26]
    decrease_font_steps_and_clamps [OF sample_world_view_get sample_world_constraints(1), of 25]
    sample_world_view_get sample_world_constraints(1)
  by simp

text \<open>
  C3. With the minimum 8 and the maximum 128 configured and a current size between 8
  and 128, one \<open>increase_font\<close> succeeds, and the size read back afterwards is at
  least the starting size and at most 128.
\<close>

theorem increase_font_bounded:
  assumes "get_font_size d w = Inr (VInt current)"
    and "8 \<le> current" and "current \<le> 128"
    and "fst (snd (global_font_constraints w)) = VInt 8"
    and "snd (snd (global_font_constraints w)) = VInt 128"
  shows "\<exists>w' n. increase_font d w = Inr w' \<and> get_font_size d w' = Inr (VInt n)
           \<and> current \<le> n \<and> n \<le> 128"
proof -
  let ?n = "if current \<ge> 36 then (if current + 4 > 128 then 128 else current + 4)
            else if current \<ge> 24 then current + 2 else current + 1"
  have inc: "increase_font d w = set_font_size d (VInt ?n) w"
    using assms
    by (cases "global_font_constraints w") (auto simp add: increase_font_def bind_err_def)
  from set_then_get [OF assms(1), of "VInt ?n"] obtain w' where
    "set_font_size d (VInt ?n) w = Inr w'" and "get_font_size d w' = Inr (VInt ?n)"
    by blast
  with inc have "increase_font d w = Inr w' \<and> get_font_size d w' = Inr (VInt ?n)"
    by simp
  moreover from assms(2,3) have "current \<le> ?n \<and> ?n \<le> 128"
    by auto
  ultimately show ?thesis
    by blast
qed

theorem increase_font_bounded_witness:
  "get_font_size View (sample_world 125) = Inr (VInt 125)
   \<and> (8::int) \<le> 125 \<and> (125::int) \<le> 128
   \<and> fst (snd (global_font_constraints (sample_world 125))) = VInt 8
   \<and> snd (snd (global_font_constraints (sample_world 125))) = VInt 128
   \<and> (\<exists>w' n. increase_font View (sample_world 125) = Inr w'
         \<and> get_font_size View w' = Inr (VInt n) \<and> 125 \<le> n \<and> n \<le> 128)"
  using increase_font_bounded [OF sample_world_view_get _ _ sample_world_constraints, of 125]
    sample_world_view_get [of 125] sample_world_constraints [of 125]
  by simp

text \<open>
  C4. For an action other than increase, decrease and reset, \<open>zoom_font\<close> returns
  normally in every domain, and the state afterwards is the state before with one
  line printed: no settings object, project data or view setting has changed and
  nothing was saved.
\<close>

theorem zoom_font_unknown_action:
  assumes "action \<notin> {''increase'', ''decrease'', ''reset''}"
  shows "zoom_font d action w =
           Inr (w\<lparr>trace := trace w @ [Print (unknown_action_message action)]\<rparr>)"
  using assms by (simp add: zoom_font_def print_def)

theorem zoom_font_unknown_action_witness:
  "''shrink'' \<notin> {''increase'', ''decrease'', ''reset''}
   \<and> zoom_font Syntax ''shrink'' (sample_world 12) =
       Inr ((sample_world 12)
         \<lparr>trace := trace (sample_world 12) @ [Print (unknown_action_message ''shrink'')]\<rparr>)"
proof -
  have h: "''shrink'' \<notin> {''increase'', ''decrease'', ''reset''}"
    by simp
  from zoom_font_unknown_action [OF h] h show ?thesis
    by blast
qed

text \<open>
  C10. A current size above the configured maximum is written back by
  \<open>increase_font\<close> as the maximum itself, which is smaller; a current size below
  the configured minimum is written back by \<open>decrease_font\<close> as the minimum
  itself, which is larger.
\<close>

theorem out_of_range_pulled_to_bound:
  "(get_font_size d w = Inr (VInt current)
      \<and> snd (snd (global_font_constraints w)) = VInt max_font \<and> max_font < current
      \<longrightarrow> increase_font d w = set_font_size d (VInt max_font) w)
   \<and> (get_font_size d' v = Inr (VInt current')
      \<and> fst (snd (global_font_constraints v)) = VInt min_font \<and> current' < min_font
      \<longrightarrow> decrease_font d' v = set_font_size d' (VInt min_font) v)"
proof (intro conjI impI)
  assume "get_font_size d w = Inr (VInt current)
      \<and> snd (snd (global_font_constraints w)) = VInt max_font \<and> max_font < current"
  then show "increase_font d w = set_font_size d (VInt max_font) w"
    by (cases "global_font_constraints w") (simp add: increase_font_def bind_err_def)
next
  assume "get_font_size d' v = Inr (VInt current')
      \<and> fst (snd (global_font_constraints v)) = VInt min_font \<and> current' < min_font"
  then show "decrease_font d' v = set_font_size d' (VInt min_font) v"
    by (cases "global_font_constraints v") (simp add: decrease_font_def bind_err_def)
qed

theorem out_of_range_pulled_to_bound_witness:
  "get_font_size View (sample_world 200) = Inr (VInt 200)
   \<and> snd (snd (global_font_constraints (sample_world 200))) = VInt 128 \<and> (128::int) < 200
   \<and> increase_font View (sample_world 200) = set_font_size View (VInt 128) (sample_world 200)
   \<and> get_font_size View (sample_world 5) = Inr (VInt 5)
   \<and> fst (snd (global_font_constraints (sample_world 5))) = VInt 8 \<and> (5::int) < 8
   \<and> decrease_font View (sample_world 5) = set_font_size View (VInt 8) (sample_world 5)"
  using out_of_range_pulled_to_bound
      [of View "sample_world 200" 200 128 View "sample_world 5" 5 8]
    sample_world_view_get [of 200] sample_world_view_get [of 5]
    sample_world_constraints [of 200] sample_world_constraints [of 5]
  by simp

section \<open>Reset in the four domains\<close>

text \<open>
  C5. In the Window and View domains, and in the Syntax domain for a view that has a
  syntax, \<open>erase_font_size\<close> succeeds, the key \<open>font_size\<close> is absent from the
  store of the domain afterwards, the global constraints are as before, and
  \<open>get_font_size\<close> then answers their default, whatever size was stored.

  This is a statement about the stores as the spec describes the Settings Accessor:
  each one a key-value store that is read on its own. For the View domain in
  particular, \<open>view_settings\<close> is such a flat store, so a key erased from it is
  absent. The host's own fall-back from the settings of a view to the syntax, project
  and global settings, which the docstring of \<^verbatim>\<open>ViewFontSizeCommand.erase_font_size\<close>
  mentions, is not part of the source and is not modelled; under it, the read after an
  erase could answer an inherited size instead.

  The instance that follows starts from stored sizes 16, 18 and 20 in the three
  domains, with a global size of 14 and a default of 12: each read after the erase
  answers 12.
\<close>

theorem erase_font_size_removes_key:
  "(\<exists>w'. erase_font_size Window w = Inr w'
        \<and> get_window_settings w' ''font_size'' = None
        \<and> global_font_constraints w' = global_font_constraints w
        \<and> get_font_size Window w' = Inr (fst (global_font_constraints w')))
   \<and> (\<forall>name. view_syntax w = Some name \<longrightarrow>
        (\<exists>w'. erase_font_size Syntax w = Inr w'
           \<and> load_settings w' (name @ ''.sublime-settings'') ''font_size'' = None
           \<and> global_font_constraints w' = global_font_constraints w
           \<and> get_font_size Syntax w' = Inr (fst (global_font_constraints w'))))
   \<and> (\<exists>w'. erase_font_size View w = Inr w'
        \<and> view_settings w' ''font_size'' = None
        \<and> global_font_constraints w' = global_font_constraints w
        \<and> get_font_size View w' = Inr (fst (global_font_constraints w')))"
proof (intro conjI allI impI)
  show "\<exists>w'. erase_font_size Window w = Inr w'
        \<and> get_window_settings w' ''font_size'' = None
        \<and> global_font_constraints w' = global_font_constraints w
        \<and> get_font_size Window w' = Inr (fst (global_font_constraints w'))"
    by (cases "get_window_settings w ''font_size''")
      (simp_all add: window_erase_font_size_def window_get_font_size_def set_window_settings_def
        set_project_data_def get_window_settings_def project_data_or_empty_def
        settings_get_def global_font_constraints_def Let_def load_settings_def)
next
  fix name
  assume "view_syntax w = Some name"
  then show "\<exists>w'. erase_font_size Syntax w = Inr w'
           \<and> load_settings w' (name @ ''.sublime-settings'') ''font_size'' = None
           \<and> global_font_constraints w' = global_font_constraints w
           \<and> get_font_size Syntax w' = Inr (fst (global_font_constraints w'))"
    by (simp add: syntax_erase_font_size_def syntax_get_font_size_def settings_file_def
        bind_err_def save_settings_def settings_erase_def load_settings_def settings_get_def
        global_font_constraints_def Let_def)
next
  show "\<exists>w'. erase_font_size View w = Inr w'
        \<and> view_settings w' ''font_size'' = None
        \<and> global_font_constraints w' = global_font_constraints w
        \<and> get_font_size View w' = Inr (fst (global_font_constraints w'))"
    by (simp add: view_erase_font_size_def view_get_font_size_def view_erase_def
        settings_get_def global_font_constraints_def Let_def load_settings_def)
qed

theorem erase_font_size_removes_key_witness:
  "get_font_size Window stored_world = Inr (VInt 16)
   \<and> get_font_size Syntax stored_world = Inr (VInt 18)
   \<and> get_font_size View stored_world = Inr (VInt 20)
   \<and> get_font_size Global stored_world = Inr (VInt 14)
   \<and> view_syntax stored_world = Some ''Python''
   \<and> (\<exists>w'. erase_font_size Window stored_world = Inr w'
         \<and> get_window_settings w' ''font_size'' = None
         \<and> get_font_size Window w' = Inr (VInt 12))
   \<and> (\<exists>w'. erase_font_size Syntax stored_world = Inr w'
         \<and> load_settings w' ''Python.sublime-settings'' ''font_size'' = None
         \<and> get_font_size Syntax w' = Inr (VInt 12))
   \<and> (\<exists>w'. erase_font_size View stored_world = Inr w'
         \<and> view_settings w' ''font_size'' = None
         \<and> get_font_size View w' = Inr (VInt 12))"
proof -
  note erased = erase_font_size_removes_key [of stored_world]
  have h: "view_syntax stored_world = Some ''Python''"
    by (simp add: stored_world_def)
  from erased obtain a where a: "erase_font_size Window stored_world = Inr a"
    "get_window_settings a ''font_size'' = None"
    "global_font_constraints a = global_font_constraints stored_world"
    "get_font_size Window a = Inr (fst (global_font_constraints a))"
    by blast
  from erased h obtain b where b: "erase_font_size Syntax stored_world = Inr b"
    "load_settings b (''Python'' @ ''.sublime-settings'') ''font_size'' = None"
    "global_font_constraints b = global_font_constraints stored_world"
    "get_font_size Syntax b = Inr (fst (global_font_constraints b))"
    by blast
  from erased obtain c where c: "erase_font_size View stored_world = Inr c"
    "view_settings c ''font_size'' = None"
    "global_font_constraints c = global_font_constraints stored_world"
    "get_font_size View c = Inr (fst (global_font_constraints c))"
    by blast
  from a b c h stored_world_sizes show ?thesis
    by (simp add: stored_world_constraints)
qed

text \<open>
  C6. In the Global domain the reset action always succeeds and stores the default of
  the global constraints under \<open>font_size\<close>; a second reset leaves that stored
  value, and every settings object, as the first one left it.
\<close>

theorem global_reset_idempotent:
  "\<exists>w1 w2. zoom_font Global ''reset'' w = Inr w1
      \<and> zoom_font Global ''reset'' w1 = Inr w2
      \<and> load_settings w1 preferences ''font_size'' = Some (fst (global_font_constraints w))
      \<and> load_settings w2 preferences ''font_size'' = load_settings w1 preferences ''font_size''
      \<and> fst (global_font_constraints w1) = fst (global_font_constraints w)
      \<and> fst (global_font_constraints w2) = fst (global_font_constraints w)
      \<and> files w2 = files w1"
  by (simp add: zoom_font_def reset_font_def global_erase_font_size_def global_set_font_size_def
      save_settings_def settings_set_def load_settings_def settings_get_def
      global_font_constraints_def Let_def preferences_def)

theorem global_reset_idempotent_witness:
  "\<exists>w1 w2. zoom_font Global ''reset'' (sample_world 30) = Inr w1
      \<and> zoom_font Global ''reset'' w1 = Inr w2
      \<and> load_settings w1 preferences ''font_size'' = Some (VInt 10)
      \<and> load_settings w2 preferences ''font_size'' = Some (VInt 10)"
proof -
  have d: "fst (global_font_constraints (sample_world 30)) = VInt 10"
    by (simp add: sample_world_prefs settings_get_def global_font_constraints_def Let_def)
  from global_reset_idempotent [of "sample_world 30"] show ?thesis
    unfolding d by metis
qed

section \<open>The Command Rewriter\<close>

text \<open>
  C9. \<open>on_window_command\<close> answers the command \<open>global_font_size\<close> with the
  action increase, decrease and reset for the three host commands, and nothing for
  every other command name.
\<close>

theorem on_window_command_table:
  "on_window_command ''increase_font_size''
      = Some (''global_font_size'', [(''action'', ''increase'')])
   \<and> on_window_command ''decrease_font_size''
      = Some (''global_font_size'', [(''action'', ''decrease'')])
   \<and> on_window_command ''reset_font_size''
      = Some (''global_font_size'', [(''action'', ''reset'')])
   \<and> (command \<notin> {''increase_font_size'', ''decrease_font_size'', ''reset_font_size''}
        \<longrightarrow> on_window_command command = None)"
  by (simp add: on_window_command_def)

theorem on_window_command_table_witness:
  "''save'' \<notin> {''increase_font_size'', ''decrease_font_size'', ''reset_font_size''}
   \<and> on_window_command ''save'' = None"
proof -
  have h: "''save'' \<notin> {''increase_font_size'', ''decrease_font_size'', ''reset_font_size''}"
    by simp
  from on_window_command_table [of "''save''"] h show ?thesis
    by blast
qed

section \<open>The First-Run Initializer\<close>

text \<open>
  C7. \<open>plugin_loaded\<close> leaves every key that the preferences already have as it
  is, so a second run changes nothing at all; what it does to the host is the writes
  of the absent constraint keys, in order, followed by one save of the preferences
  when there was at least one write, and no save otherwise.
\<close>

theorem plugin_loaded_keeps_present_keys_saves_once:
  "(\<forall>name. settings_has (load_settings w preferences) name \<longrightarrow>
       load_settings (plugin_loaded w) preferences name = load_settings w preferences name)
   \<and> plugin_loaded (plugin_loaded w) = plugin_loaded w
   \<and> trace (plugin_loaded w) =
       (let writes = map (\<lambda>(name, dflt). Settings_set preferences name dflt)
              (filter (\<lambda>(name, dflt). \<not> settings_has (load_settings w preferences) name)
                 (defaults w))
        in trace w @ writes @ (if writes = [] then [] else [Save_settings preferences]))"
proof (intro conjI allI impI)
  fix name
  assume "settings_has (load_settings w preferences) name"
  then show "load_settings (plugin_loaded w) preferences name = load_settings w preferences name"
    by (auto simp add: settings_has_def load_settings_def plugin_loaded_files)
next
  show "plugin_loaded (plugin_loaded w) = plugin_loaded w"
    by (rule plugin_loaded_twice)
next
  show "trace (plugin_loaded w) =
       (let writes = map (\<lambda>(name, dflt). Settings_set preferences name dflt)
              (filter (\<lambda>(name, dflt). \<not> settings_has (load_settings w preferences) name)
                 (defaults w))
        in trace w @ writes @ (if writes = [] then [] else [Save_settings preferences]))"
    by (rule plugin_loaded_trace)
qed

theorem plugin_loaded_keeps_present_keys_saves_once_witness:
  "settings_has (load_settings (sample_world 14) preferences) ''max_font_size''
   \<and> load_settings (plugin_loaded (sample_world 14)) preferences ''max_font_size''
       = Some (VInt 128)
   \<and> plugin_loaded (plugin_loaded (sample_world 14)) = plugin_loaded (sample_world 14)
   \<and> trace (plugin_loaded (sample_world 14)) =
       [Settings_set preferences ''default_font_size'' (VInt 14), Save_settings preferences]"
proof -
  have h: "settings_has (load_settings (sample_world 14) preferences) ''max_font_size''"
    by (simp add: sample_world_prefs settings_has_def)
  have t: "trace (sample_world 14) = []"
    by (simp add: sample_world_def)
  have d: "defaults (sample_world 14) =
     [(''default_font_size'', VInt 14), (''min_font_size'', VInt 8), (''max_font_size'', VInt 128)]"
    by (simp add: defaults_def sample_world_prefs settings_get_def)
  from plugin_loaded_keeps_present_keys_saves_once [of "sample_world 14"] h
  show ?thesis
    by (simp add: t d) (simp add: sample_world_prefs settings_has_def)
qed

text \<open>
  C8. A constraint key that is absent from the preferences at load time is there
  afterwards: \<open>default_font_size\<close> with what \<open>settings.get('font_size')\<close>
  answered at load time, \<open>min_font_size\<close> with 8 and \<open>max_font_size\<close> with
  128.
\<close>

theorem plugin_loaded_seeds_absent_keys:
  "(\<not> settings_has (load_settings w preferences) ''default_font_size'' \<longrightarrow>
       load_settings (plugin_loaded w) preferences ''default_font_size''
         = Some (settings_get (load_settings w preferences) ''font_size'' VNone))
   \<and> (\<not> settings_has (load_settings w preferences) ''min_font_size'' \<longrightarrow>
       load_settings (plugin_loaded w) preferences ''min_font_size'' = Some (VInt 8))
   \<and> (\<not> settings_has (load_settings w preferences) ''max_font_size'' \<longrightarrow>
       load_settings (plugin_loaded w) preferences ''max_font_size'' = Some (VInt 128))"
  by (simp add: settings_has_def load_settings_def plugin_loaded_files defaults_def)

theorem plugin_loaded_seeds_absent_keys_witness:
  "\<not> settings_has (load_settings first_run_world preferences) ''default_font_size''
   \<and> \<not> settings_has (load_settings first_run_world preferences) ''min_font_size''
   \<and> \<not> settings_has (load_settings first_run_world preferences) ''max_font_size''
   \<and> load_settings (plugin_loaded first_run_world) preferences ''default_font_size''
       = Some (VInt 11)
   \<and> load_settings (plugin_loaded first_run_world) preferences ''min_font_size''
       = Some (VInt 8)
   \<and> load_settings (plugin_loaded first_run_world) preferences ''max_font_size''
       = Some (VInt 128)"
proof -
  have p: "load_settings first_run_world preferences = [''font_size'' \<mapsto> VInt 11]"
    by (simp add: first_run_world_def load_settings_def)
  from plugin_loaded_seeds_absent_keys [of first_run_world] show ?thesis
    by (simp add: p settings_has_def settings_get_def)
qed

end
